theory Spec2Isabelle
  imports Main "HOL-Library.Word"
begin

unbundle bit_operations_syntax

section \<open>Python values used by \<open>src/core/ca_bundle.py\<close>\<close>

text \<open>
  A Python \<open>str\<close> is a sequence of Unicode code points, so it is a list of naturals
  here (an Isabelle \<open>char\<close> is only a byte). \<open>bytes\<close> is a list of 8-bit words.
  \<open>str_of\<close> turns an ASCII literal of this theory into such a string.
\<close>

type_synonym py_str = "nat list"
type_synonym bytes = "8 word list"

definition str_of :: "string \<Rightarrow> py_str" where
  "str_of s = map of_char s"

text \<open>
  The exceptions that can occur. \<open>NonException\<close> stands for the classes that derive
  from \<open>BaseException\<close> but not from \<open>Exception\<close> (KeyboardInterrupt, SystemExit):
  \<open>except Exception\<close> does not catch them.
\<close>

datatype py_exc =
    ModuleNotFoundError
  | ImportError
  | FileNotFoundError
  | FileExistsError
  | PermissionError
  | OtherException py_str
  | NonException py_str

fun is_Exception :: "py_exc \<Rightarrow> bool" where
  "is_Exception (NonException _) = False"
| "is_Exception _ = True"

subsection \<open>\<open>_is_ascii\<close> (lines 20-25)\<close>

text \<open>
  \<open>s.encode("ascii")\<close> raises UnicodeEncodeError exactly when some code point of \<open>s\<close>
  is 128 or more; \<open>None\<close> is that exception. \<open>is_ascii\<close> is the source's \<open>_is_ascii\<close>
  (an Isabelle name cannot start with an underscore).
\<close>

definition encode_ascii :: "py_str \<Rightarrow> bytes option" where
  "encode_ascii s = (if list_all (\<lambda>c. c < 128) s then Some (map of_nat s) else None)"

definition is_ascii :: "py_str \<Rightarrow> bool" where
  "is_ascii s = (case encode_ascii s of Some _ \<Rightarrow> True | None \<Rightarrow> False)"

definition startswith :: "py_str \<Rightarrow> py_str \<Rightarrow> bool" where
  "startswith s pre = (take (length pre) s = pre)"

section \<open>\<open>hashlib.sha256(data).hexdigest()\<close>\<close>

text \<open>
  SHA-256 as FIPS 180-4 defines it, on 32-bit words: the message is padded to a multiple
  of 64 bytes, each block is expanded to 64 words and run through 64 rounds.
\<close>

type_synonym w32 = "32 word"
type_synonym sha_state = "w32 \<times> w32 \<times> w32 \<times> w32 \<times> w32 \<times> w32 \<times> w32 \<times> w32"

definition sha_ch :: "w32 \<Rightarrow> w32 \<Rightarrow> w32 \<Rightarrow> w32" where
  "sha_ch x y z = (x AND y) XOR (NOT x AND z)"

definition sha_maj :: "w32 \<Rightarrow> w32 \<Rightarrow> w32 \<Rightarrow> w32" where
  "sha_maj x y z = (x AND y) XOR (x AND z) XOR (y AND z)"

definition big_sigma0 :: "w32 \<Rightarrow> w32" where
  "big_sigma0 x = word_rotr 2 x XOR word_rotr 13 x XOR word_rotr 22 x"

definition big_sigma1 :: "w32 \<Rightarrow> w32" where
  "big_sigma1 x = word_rotr 6 x XOR word_rotr 11 x XOR word_rotr 25 x"

definition small_sigma0 :: "w32 \<Rightarrow> w32" where
  "small_sigma0 x = word_rotr 7 x XOR word_rotr 18 x XOR drop_bit 3 x"

definition small_sigma1 :: "w32 \<Rightarrow> w32" where
  "small_sigma1 x = word_rotr 17 x XOR word_rotr 19 x XOR drop_bit 10 x"

definition sha256_K :: "w32 list" where
  "sha256_K =
     [0x428a2f98, 0x71374491, 0xb5c0fbcf, 0xe9b5dba5] @
     [0x3956c25b, 0x59f111f1, 0x923f82a4, 0xab1c5ed5] @
     [0xd807aa98, 0x12835b01, 0x243185be, 0x550c7dc3] @
     [0x72be5d74, 0x80deb1fe, 0x9bdc06a7, 0xc19bf174] @
     [0xe49b69c1, 0xefbe4786, 0x0fc19dc6, 0x240ca1cc] @
     [0x2de92c6f, 0x4a7484aa, 0x5cb0a9dc, 0x76f988da] @
     [0x983e5152, 0xa831c66d, 0xb00327c8, 0xbf597fc7] @
     [0xc6e00bf3, 0xd5a79147, 0x06ca6351, 0x14292967] @
     [0x27b70a85, 0x2e1b2138, 0x4d2c6dfc, 0x53380d13] @
     [0x650a7354, 0x766a0abb, 0x81c2c92e, 0x92722c85] @
     [0xa2bfe8a1, 0xa81a664b, 0xc24b8b70, 0xc76c51a3] @
     [0xd192e819, 0xd6990624, 0xf40e3585, 0x106aa070] @
     [0x19a4c116, 0x1e376c08, 0x2748774c, 0x34b0bcb5] @
     [0x391c0cb3, 0x4ed8aa4a, 0x5b9cca4f, 0x682e6ff3] @
     [0x748f82ee, 0x78a5636f, 0x84c87814, 0x8cc70208] @
     [0x90befffa, 0xa4506ceb, 0xbef9a3f7, 0xc67178f2]"

definition sha256_H0 :: sha_state where
  "sha256_H0 = (0x6a09e667, 0xbb67ae85, 0x3c6ef372, 0xa54ff53a,
                0x510e527f, 0x9b05688c, 0x1f83d9ab, 0x5be0cd19)"

text \<open>The bit length of the message as eight bytes, most significant first.\<close>

definition be64 :: "nat \<Rightarrow> bytes" where
  "be64 n = map (\<lambda>i. ucast (drop_bit (8 * i) (word_of_nat n :: 64 word))) [7, 6, 5, 4, 3, 2, 1, 0]"

definition sha_pad :: "bytes \<Rightarrow> bytes" where
  "sha_pad msg = msg @ [0x80] @ replicate ((119 - length msg mod 64) mod 64) 0
                   @ be64 (8 * length msg)"

function sha_blocks :: "bytes \<Rightarrow> bytes list" where
  "sha_blocks bs = (if bs = [] then [] else take 64 bs # sha_blocks (drop 64 bs))"
  by pat_completeness auto
termination
  by (relation "measure length") auto

declare sha_blocks.simps [simp del]

definition be32 :: "bytes \<Rightarrow> w32" where
  "be32 bs = foldl (\<lambda>acc b. push_bit 8 acc OR ucast b) 0 bs"

definition words_of_block :: "bytes \<Rightarrow> w32 list" where
  "words_of_block blk = map (\<lambda>i. be32 (take 4 (drop (4 * i) blk))) [0..<16]"

fun sha_extend :: "nat \<Rightarrow> w32 list \<Rightarrow> w32 list" where
  "sha_extend 0 ws = ws"
| "sha_extend (Suc n) ws =
     (let t = length ws
      in sha_extend n
           (ws @ [small_sigma1 (ws ! (t - 2)) + ws ! (t - 7)
                  + small_sigma0 (ws ! (t - 15)) + ws ! (t - 16)]))"

definition sha_schedule :: "bytes \<Rightarrow> w32 list" where
  "sha_schedule blk = sha_extend 48 (words_of_block blk)"

fun sha_round :: "w32 \<times> w32 \<Rightarrow> sha_state \<Rightarrow> sha_state" where
  "sha_round (k, w) (a, b, c, d, e, f, g, h) =
     (let t1 = h + big_sigma1 e + sha_ch e f g + k + w;
          t2 = big_sigma0 a + sha_maj a b c
      in (t1 + t2, a, b, c, d + t1, e, f, g))"

fun add_state :: "sha_state \<Rightarrow> sha_state \<Rightarrow> sha_state" where
  "add_state (a, b, c, d, e, f, g, h) (a', b', c', d', e', f', g', h') =
     (a + a', b + b', c + c', d + d', e + e', f + f', g + g', h + h')"

definition sha_compress :: "bytes \<Rightarrow> sha_state \<Rightarrow> sha_state" where
  "sha_compress blk hs = add_state hs (fold sha_round (zip sha256_K (sha_schedule blk)) hs)"

definition sha256 :: "bytes \<Rightarrow> sha_state" where
  "sha256 msg = fold sha_compress (sha_blocks (sha_pad msg)) sha256_H0"

text \<open>Lower-case hexadecimal digits: \<open>0\<close> is code point 48, \<open>a\<close> is 97.\<close>

definition hexdigit :: "nat \<Rightarrow> nat" where
  "hexdigit n = (if n < 10 then 48 + n else 87 + n)"

definition hex32 :: "w32 \<Rightarrow> py_str" where
  "hex32 w = map (\<lambda>i. hexdigit (unat (drop_bit (4 * i) w AND 15))) [7, 6, 5, 4, 3, 2, 1, 0]"

fun hexdigest :: "sha_state \<Rightarrow> py_str" where
  "hexdigest (a, b, c, d, e, f, g, h) = concat (map hex32 [a, b, c, d, e, f, g, h])"

definition sha256_hexdigest :: "bytes \<Rightarrow> py_str" where
  "sha256_hexdigest data = hexdigest (sha256 data)"

section \<open>\<open>pathlib\<close> paths on Windows\<close>

text \<open>
  The path operations are reached only when \<open>sys.platform\<close> starts with \<open>win\<close>, where
  \<open>Path\<close> is \<open>WindowsPath\<close>. A parsed path is its anchor (drive and root, possibly
  empty) and the list of its further components. \<open>path_str\<close> is \<open>str(p)\<close>: the
  components joined by a backslash after the anchor, \<open>.\<close> for the empty path, and
  a leading \<open>.\<close> component when a relative path starts with a name that looks like
  a drive. \<open>joinpath\<close> is \<open>p / name\<close> for a plain name (no separator, no drive),
  which is all the source uses; \<open>parent\<close> is \<open>p.parent\<close>.
\<close>

datatype path = Path (anchor: py_str) (tail: "py_str list")

definition sep :: py_str where
  "sep = [92]"

fun str_join :: "py_str \<Rightarrow> py_str list \<Rightarrow> py_str" where
  "str_join s [] = []"
| "str_join s [x] = x"
| "str_join s (x # y # ys) = x @ s @ str_join s (y # ys)"

definition has_drive :: "py_str \<Rightarrow> bool" where
  "has_drive name = (2 \<le> length name \<and> name ! 1 = 58)"

definition path_str :: "path \<Rightarrow> py_str" where
  "path_str p =
     (if anchor p \<noteq> [] then anchor p @ str_join sep (tail p)
      else let t = (case tail p of [] \<Rightarrow> [] | n # ns \<Rightarrow> if has_drive n then [46] # n # ns else n # ns);
               s = str_join sep t
           in if s = [] then [46] else s)"

definition joinpath :: "path \<Rightarrow> py_str \<Rightarrow> path" where
  "joinpath p name = Path (anchor p) (tail p @ [name])"

definition parent :: "path \<Rightarrow> path" where
  "parent p = (if tail p = [] then p else Path (anchor p) (butlast (tail p)))"

section \<open>The filesystem\<close>

text \<open>
  The filesystem maps a path string to what is there: a file with its bytes or a
  directory. A path names an entry by its string. Only failures that the entries
  themselves cause are modelled (a missing parent, a file where a directory is needed,
  a directory where a file is needed); permissions and full disks are not.
  \<open>Path.exists\<close> answers without raising, and is true of a directory as well as
  of a file.
\<close>

datatype node = File bytes | Dir

type_synonym filesystem = "py_str \<rightharpoonup> node"

definition path_exists :: "filesystem \<Rightarrow> py_str \<Rightarrow> bool" where
  "path_exists fsys s = (fsys s \<noteq> None)"

definition is_dir :: "filesystem \<Rightarrow> py_str \<Rightarrow> bool" where
  "is_dir fsys s = (fsys s = Some Dir)"

text \<open>
  \<open>os.mkdir\<close>: FileExistsError when the path exists, FileNotFoundError when its parent
  is not an existing directory (what Windows reports, also when the parent is a file).
\<close>

definition os_mkdir :: "filesystem \<Rightarrow> path \<Rightarrow> py_exc + filesystem" where
  "os_mkdir fsys p =
     (case fsys (path_str p) of
        Some _ \<Rightarrow> Inl FileExistsError
      | None \<Rightarrow>
          if tail p = [] then Inl FileNotFoundError
          else (case fsys (path_str (parent p)) of
                  Some Dir \<Rightarrow> Inr (fsys(path_str p \<mapsto> Dir))
                | _ \<Rightarrow> Inl FileNotFoundError))"

text \<open>
  \<open>Path.mkdir(parents, exist_ok)\<close> as pathlib writes it: try \<open>os.mkdir\<close>; on
  FileNotFoundError create the parent (with \<open>parents=True, exist_ok=True\<close>) and then
  this directory again with \<open>parents=False\<close>; on any other OSError give up unless
  \<open>exist_ok\<close> holds and the path is a directory. The result is the exception, if one
  is raised, and the filesystem as it then is.
\<close>

function path_mkdir :: "bool \<Rightarrow> bool \<Rightarrow> filesystem \<Rightarrow> path \<Rightarrow> py_exc option \<times> filesystem" where
  "path_mkdir parents exist_ok fsys p =
     (case os_mkdir fsys p of
        Inr fsys' \<Rightarrow> (None, fsys')
      | Inl e \<Rightarrow>
          if e = FileNotFoundError then
            (if \<not> parents \<or> parent p = p then (Some e, fsys)
             else (case path_mkdir True True fsys (parent p) of
                     (Some e', fsys1) \<Rightarrow> (Some e', fsys1)
                   | (None, fsys1) \<Rightarrow> path_mkdir False exist_ok fsys1 p))
          else if \<not> exist_ok \<or> \<not> is_dir fsys (path_str p) then (Some e, fsys)
          else (None, fsys))"
  by pat_completeness auto
termination
proof (relation "measure (\<lambda>(parents, exist_ok, fsys, p). 2 * length (tail p) + (if parents then 1 else 0))")
  show "wf (measure (\<lambda>(parents, exist_ok, fsys, p). 2 * length (tail p) + (if parents then 1 else 0)))"
    by simp
next
  fix parents exist_ok :: bool and fsys :: filesystem and p :: path and e :: py_exc
  assume "\<not> (\<not> parents \<or> parent p = p)"
  then have "tail p \<noteq> []"
    by (auto simp: parent_def)
  then have "length (tail (parent p)) < length (tail p)"
    by (simp add: parent_def)
  then show "((True, True, fsys, parent p), (parents, exist_ok, fsys, p))
      \<in> measure (\<lambda>(parents, exist_ok, fsys, p). 2 * length (tail p) + (if parents then 1 else 0))"
    by simp
next
  fix parents exist_ok :: bool and fsys fsys1 :: filesystem and p :: path
  assume "\<not> (\<not> parents \<or> parent p = p)"
  then show "((False, exist_ok, fsys1, p), (parents, exist_ok, fsys, p))
      \<in> measure (\<lambda>(parents, exist_ok, fsys, p). 2 * length (tail p) + (if parents then 1 else 0))"
    by simp
qed

declare path_mkdir.simps [simp del]

text \<open>
  \<open>Path.read_bytes\<close> and \<open>Path.write_bytes\<close>: opening a directory fails, so does
  reading what is not there and creating a file whose parent is not a directory.
\<close>

definition read_bytes :: "filesystem \<Rightarrow> py_str \<Rightarrow> py_exc + bytes" where
  "read_bytes fsys s =
     (case fsys s of
        Some (File b) \<Rightarrow> Inr b
      | Some Dir \<Rightarrow> Inl PermissionError
      | None \<Rightarrow> Inl FileNotFoundError)"

definition write_bytes :: "filesystem \<Rightarrow> path \<Rightarrow> bytes \<Rightarrow> py_exc + filesystem" where
  "write_bytes fsys p data =
     (case fsys (path_str p) of
        Some Dir \<Rightarrow> Inl PermissionError
      | _ \<Rightarrow>
          (case fsys (path_str (parent p)) of
             Some Dir \<Rightarrow> Inr (fsys(path_str p \<mapsto> File data))
           | _ \<Rightarrow> Inl FileNotFoundError))"

section \<open>The process and its host\<close>

text \<open>
  What the routine reads and cannot change is the host: \<open>sys.platform\<close>, what
  \<open>import certifi\<close> does (it raises, or gives a module whose \<open>where()\<close> raises or
  returns a string) and the parsed \<open>Path(tempfile.gettempdir())\<close>. What it can change
  is the world: \<open>os.environ\<close>, the filesystem, and the list of the filesystem
  operations the routine has made so far (its own \<open>pathlib\<close> calls; what the import
  machinery or \<open>tempfile\<close> do inside is not part of it).
\<close>

datatype io_event =
    Exists py_str
  | Mkdir py_str
  | ReadBytes py_str
  | WriteBytes py_str bytes

record host =
  sys_platform :: py_str
  certifi_import :: "py_exc + (py_exc + py_str)"
  gettempdir :: path

record world =
  environ :: "py_str \<rightharpoonup> py_str"
  filesys :: filesystem
  io_trace :: "io_event list"

definition record_io :: "io_event \<Rightarrow> world \<Rightarrow> world" where
  "record_io ev w = w\<lparr>io_trace := io_trace w @ [ev]\<rparr>"

definition CURL_CA_BUNDLE :: py_str where
  "CURL_CA_BUNDLE = str_of ''CURL_CA_BUNDLE''"

definition SSL_CERT_FILE :: py_str where
  "SSL_CERT_FILE = str_of ''SSL_CERT_FILE''"

text \<open>
  \<open>os.environ.get(k)\<close> used as a condition: the value when the variable is set to a
  non-empty string. \<open>os.environ.setdefault(k, v)\<close> sets \<open>k\<close> only when it is not set.
\<close>

definition environ_get_nonempty :: "(py_str \<rightharpoonup> py_str) \<Rightarrow> py_str \<Rightarrow> py_str option" where
  "environ_get_nonempty e k = (case e k of Some v \<Rightarrow> if v \<noteq> [] then Some v else None | None \<Rightarrow> None)"

definition environ_setdefault :: "(py_str \<rightharpoonup> py_str) \<Rightarrow> py_str \<Rightarrow> py_str \<Rightarrow> (py_str \<rightharpoonup> py_str)" where
  "environ_setdefault e k v = (case e k of None \<Rightarrow> e(k \<mapsto> v) | Some _ \<Rightarrow> e)"

section \<open>\<open>ensure_curl_cffi_ca_bundle\<close> (lines 28-68)\<close>

text \<open>Lines 56 and 60-61: the destination directory and the destination file.\<close>

definition dest_dir :: "path \<Rightarrow> path" where
  "dest_dir tmp = joinpath (joinpath tmp (str_of ''sora2api'')) (str_of ''certs'')"

definition dest_path :: "path \<Rightarrow> bytes \<Rightarrow> path" where
  "dest_path tmp data =
     joinpath (dest_dir tmp) (str_of ''cacert-'' @ take 12 (sha256_hexdigest data) @ str_of ''.pem'')"

text \<open>Lines 66-68: publish the destination in the environment and return it.\<close>

definition publish :: "py_str \<Rightarrow> world \<Rightarrow> (py_exc + py_str option) \<times> world" where
  "publish d w =
     (Inr (Some d),
      w\<lparr>environ := environ_setdefault ((environ w)(CURL_CA_BUNDLE \<mapsto> d)) SSL_CERT_FILE d\<rparr>)"

text \<open>
  Lines 51-68, the part of the routine after the source path is known not to be ASCII.
  \<open>Path(src_path)\<close> names the entry that \<open>src_path\<close> names.
\<close>

definition relocate :: "host \<Rightarrow> py_str \<Rightarrow> world \<Rightarrow> (py_exc + py_str option) \<times> world" where
  "relocate h src_path w =
     (let w1 = record_io (Exists src_path) w in
      if \<not> path_exists (filesys w1) src_path then (Inr None, w1)
      else
        (let ddir = dest_dir (gettempdir h) in
         case path_mkdir True True (filesys w1) ddir of
           (Some e, fsys2) \<Rightarrow>
             (Inl e, record_io (Mkdir (path_str ddir)) (w1\<lparr>filesys := fsys2\<rparr>))
         | (None, fsys2) \<Rightarrow>
             (let w2 = record_io (Mkdir (path_str ddir)) (w1\<lparr>filesys := fsys2\<rparr>);
                  w3 = record_io (ReadBytes src_path) w2
              in case read_bytes (filesys w3) src_path of
                   Inl e \<Rightarrow> (Inl e, w3)
                 | Inr data \<Rightarrow>
                     (let dest = dest_path (gettempdir h) data;
                          w4 = record_io (Exists (path_str dest)) w3
                      in if \<not> path_exists (filesys w4) (path_str dest) then
                           (let w5 = record_io (WriteBytes (path_str dest) data) w4
                            in case write_bytes (filesys w5) dest data of
                                 Inl e \<Rightarrow> (Inl e, w5)
                               | Inr fsys6 \<Rightarrow> publish (path_str dest) (w5\<lparr>filesys := fsys6\<rparr>))
                         else publish (path_str dest) w4))))"

text \<open>
  The routine. The result is the raised exception (\<open>Inl\<close>) or the returned value,
  \<open>None\<close> or a path string, together with the world it leaves.
\<close>

definition ensure_curl_cffi_ca_bundle :: "host \<Rightarrow> world \<Rightarrow> (py_exc + py_str option) \<times> world" where
  "ensure_curl_cffi_ca_bundle h w =
     (case environ_get_nonempty (environ w) CURL_CA_BUNDLE of
        Some v \<Rightarrow> (Inr (Some v), w)
      | None \<Rightarrow>
          if \<not> startswith (sys_platform h) (str_of ''win'') then (Inr None, w)
          else
            (case certifi_import h of
               Inl e \<Rightarrow> if is_Exception e then (Inr None, w) else (Inl e, w)
             | Inr certifi \<Rightarrow>
                 (case certifi of
                    Inl e \<Rightarrow> (Inl e, w)
                  | Inr src_path \<Rightarrow>
                      if is_ascii src_path then (Inr None, w)
                      else relocate h src_path w)))"

text \<open>The write events of a trace.\<close>

fun is_write :: "io_event \<Rightarrow> bool" where
  "is_write (WriteBytes _ _) = True"
| "is_write _ = False"

definition writes :: "io_event list \<Rightarrow> io_event list" where
  "writes t = filter is_write t"

section \<open>Example hosts and worlds\<close>

definition src_cjk :: py_str where
  "src_cjk = str_of ''C:'' @ sep @ [29992, 25143] @ sep @ str_of ''cacert.pem''"

definition tmp_win :: path where
  "tmp_win = Path (str_of ''C:'' @ sep) [str_of ''Temp'']"

definition tmp_cjk :: path where
  "tmp_cjk = Path (str_of ''C:'' @ sep)
     [str_of ''Users'', [29992, 25143], str_of ''AppData'', str_of ''Local'', str_of ''Temp'']"

definition host_win :: host where
  "host_win = \<lparr>sys_platform = str_of ''win32'', certifi_import = Inr (Inr src_cjk),
               gettempdir = tmp_win\<rparr>"

definition host_linux :: host where
  "host_linux = host_win\<lparr>sys_platform := str_of ''linux''\<rparr>"

definition host_ascii_src :: host where
  "host_ascii_src =
     host_win\<lparr>certifi_import := Inr (Inr (str_of ''C:'' @ sep @ str_of ''certifi'' @ sep @ str_of ''cacert.pem''))\<rparr>"

definition host_no_certifi :: host where
  "host_no_certifi = host_win\<lparr>certifi_import := Inl ModuleNotFoundError\<rparr>"

definition host_where_raises :: host where
  "host_where_raises = host_win\<lparr>certifi_import := Inr (Inl (OtherException (str_of ''RuntimeError'')))\<rparr>"

definition host_cjk_tmp :: host where
  "host_cjk_tmp = host_win\<lparr>gettempdir := tmp_cjk\<rparr>"

definition world_fresh :: world where
  "world_fresh = \<lparr>environ = Map.empty,
     filesys = [path_str tmp_win \<mapsto> Dir, src_cjk \<mapsto> File [0x41]],
     io_trace = []\<rparr>"

definition world_override :: world where
  "world_override = world_fresh\<lparr>environ := [CURL_CA_BUNDLE \<mapsto> str_of ''/etc/ssl/custom.pem'']\<rparr>"

definition world_no_src :: world where
  "world_no_src = world_fresh\<lparr>filesys := [path_str tmp_win \<mapsto> Dir]\<rparr>"

definition world_src_dir :: world where
  "world_src_dir = world_fresh\<lparr>filesys := [path_str tmp_win \<mapsto> Dir, src_cjk \<mapsto> Dir]\<rparr>"

definition world_stale :: world where
  "world_stale = \<lparr>environ = [SSL_CERT_FILE \<mapsto> str_of ''D:/site.pem''],
     filesys = [src_cjk \<mapsto> File [0x41],
                path_str (dest_dir tmp_win) \<mapsto> Dir,
                path_str (dest_path tmp_win [0x41]) \<mapsto> File [0x42]],
     io_trace = []\<rparr>"

definition world_cjk :: world where
  "world_cjk = world_fresh\<lparr>filesys := [path_str tmp_cjk \<mapsto> Dir, src_cjk \<mapsto> File [0x41]]\<rparr>"

section \<open>Properties of the parts\<close>

lemma is_ascii_iff: "is_ascii s \<longleftrightarrow> (\<forall>c\<in>set s. c < 128)"
  by (simp add: is_ascii_def encode_ascii_def list_all_iff)

lemma is_ascii_Nil: "is_ascii []"
  by (simp add: is_ascii_iff)

lemma is_ascii_append: "is_ascii (a @ b) \<longleftrightarrow> is_ascii a \<and> is_ascii b"
  by (auto simp: is_ascii_iff)

lemma is_ascii_take: "is_ascii s \<Longrightarrow> is_ascii (take n s)"
  by (auto simp: is_ascii_iff dest: in_set_takeD)

lemma is_ascii_sep: "is_ascii sep"
  by (simp add: is_ascii_iff sep_def)

lemma is_ascii_str_of: "is_ascii (str_of s) \<longleftrightarrow> (\<forall>c\<in>set s. (of_char c :: nat) < 128)"
  by (simp add: is_ascii_iff str_of_def)

lemma hexdigit_nibble: "hexdigit (unat (x AND (15 :: w32))) < 128"
proof -
  have "unat (x AND 15) \<le> unat (15 :: w32)"
    by (rule word_and_le1 [THEN word_le_nat_alt [THEN iffD1]])
  then show ?thesis
    by (simp add: hexdigit_def)
qed

lemma is_ascii_hex32: "is_ascii (hex32 w)"
  by (simp add: is_ascii_iff hex32_def hexdigit_nibble)

lemma length_hex32: "length (hex32 w) = 8"
  by (simp add: hex32_def)

lemma is_ascii_hexdigest: "is_ascii (sha256_hexdigest data)"
proof -
  have "is_ascii (hexdigest st)" for st
    by (cases st rule: hexdigest.cases) (simp add: is_ascii_append is_ascii_hex32 is_ascii_Nil)
  then show ?thesis
    by (simp add: sha256_hexdigest_def)
qed

lemma length_hexdigest: "length (sha256_hexdigest data) = 64"
proof -
  have "length (hexdigest st) = 64" for st
    by (cases st rule: hexdigest.cases) (simp add: length_hex32)
  then show ?thesis
    by (simp add: sha256_hexdigest_def)
qed

lemma is_ascii_str_join:
  "is_ascii s \<Longrightarrow> is_ascii (str_join s xs) \<longleftrightarrow> (\<forall>x\<in>set xs. is_ascii x)"
  by (induction s xs rule: str_join.induct) (auto simp: is_ascii_append is_ascii_Nil)

lemma is_ascii_or_dot: "is_ascii (if s = [] then [46] else s) \<longleftrightarrow> is_ascii s"
  by (simp add: is_ascii_iff)

lemma is_ascii_path_str:
  "is_ascii (path_str p) \<longleftrightarrow> is_ascii (anchor p) \<and> (\<forall>n\<in>set (tail p). is_ascii n)"
proof (cases "anchor p = []")
  case False
  then show ?thesis
    by (simp add: path_str_def is_ascii_append is_ascii_str_join is_ascii_sep)
next
  case True
  have dot: "is_ascii [46]"
    by (simp add: is_ascii_iff)
  show ?thesis
  proof (cases "tail p")
    case Nil
    with True show ?thesis
      by (simp add: path_str_def dot is_ascii_Nil)
  next
    case (Cons n ns)
    show ?thesis
    proof (cases "has_drive n")
      case True
      have "path_str p = (if str_join sep ([46] # n # ns) = [] then [46] else str_join sep ([46] # n # ns))"
        using \<open>anchor p = []\<close> Cons True by (simp add: path_str_def)
      then have "is_ascii (path_str p) \<longleftrightarrow> is_ascii (str_join sep ([46] # n # ns))"
        by (simp only: is_ascii_or_dot)
      also have "\<dots> \<longleftrightarrow> (\<forall>x\<in>set ([46] # n # ns). is_ascii x)"
        by (rule is_ascii_str_join [OF is_ascii_sep])
      finally show ?thesis
        using \<open>anchor p = []\<close> Cons dot by (simp add: is_ascii_Nil)
    next
      case False
      have "path_str p = (if str_join sep (n # ns) = [] then [46] else str_join sep (n # ns))"
        using \<open>anchor p = []\<close> Cons False by (simp add: path_str_def)
      then have "is_ascii (path_str p) \<longleftrightarrow> is_ascii (str_join sep (n # ns))"
        by (simp only: is_ascii_or_dot)
      also have "\<dots> \<longleftrightarrow> (\<forall>x\<in>set (n # ns). is_ascii x)"
        by (rule is_ascii_str_join [OF is_ascii_sep])
      finally show ?thesis
        using \<open>anchor p = []\<close> Cons by (simp add: is_ascii_Nil)
    qed
  qed
qed

lemma is_ascii_dest_path:
  "is_ascii (path_str (dest_path tmp data)) \<longleftrightarrow> is_ascii (path_str tmp)"
  by (auto simp: is_ascii_path_str dest_path_def dest_dir_def joinpath_def is_ascii_append
      is_ascii_take is_ascii_hexdigest is_ascii_str_of)

lemma os_mkdir_Inr:
  "os_mkdir fsys p = Inr fsys' \<Longrightarrow> fsys' = fsys(path_str p \<mapsto> Dir) \<and> fsys (path_str p) = None"
  by (auto simp: os_mkdir_def split: option.splits if_splits node.splits)

lemma os_mkdir_existing: "fsys (path_str p) = Some n \<Longrightarrow> os_mkdir fsys p = Inl FileExistsError"
  by (simp add: os_mkdir_def)

lemma path_mkdir_preserves:
  "path_mkdir a b fsys p = (r, fsys') \<Longrightarrow> fsys s \<noteq> None \<Longrightarrow> fsys' s = fsys s"
proof (induction a b fsys p arbitrary: r fsys' rule: path_mkdir.induct)
  case (1 parents exist_ok fsys p)
  show ?case
  proof (cases "os_mkdir fsys p")
    case (Inr f)
    with "1.prems" show ?thesis
      by (subst (asm) path_mkdir.simps) (auto dest!: os_mkdir_Inr)
  next
    case (Inl e)
    show ?thesis
    proof (cases "e = FileNotFoundError \<and> \<not> (\<not> parents \<or> parent p = p)")
      case False
      with Inl "1.prems" show ?thesis
        by (subst (asm) path_mkdir.simps) (auto split: if_splits)
    next
      case True
      obtain r1 f1 where up: "path_mkdir True True fsys (parent p) = (r1, f1)"
        by (cases "path_mkdir True True fsys (parent p)")
      from True have e: "e = FileNotFoundError" and rec: "\<not> (\<not> parents \<or> parent p = p)"
        by simp_all
      have f1: "f1 s = fsys s"
        using "1.IH"(1) [OF Inl e rec up "1.prems"(2)] .
      show ?thesis
      proof (cases r1)
        case (Some e')
        with Inl e rec up "1.prems"(1) have "fsys' = f1"
          by (subst (asm) path_mkdir.simps) simp
        with f1 show ?thesis by simp
      next
        case None
        with Inl e rec up "1.prems"(1) have again: "path_mkdir False exist_ok f1 p = (r, fsys')"
          by (subst (asm) path_mkdir.simps) simp
        have "f1 s \<noteq> None"
          using f1 "1.prems"(2) by simp
        from "1.IH"(2) [OF Inl e rec up [symmetric] None again this] f1
        show ?thesis by simp
      qed
    qed
  qed
qed

lemma path_mkdir_existing:
  "fsys (path_str p) = Some Dir \<Longrightarrow> path_mkdir a True fsys p = (None, fsys)"
  by (subst path_mkdir.simps) (simp add: os_mkdir_existing is_dir_def)

lemma path_mkdir_is_dir:
  "path_mkdir a b fsys p = (None, fsys') \<Longrightarrow> b \<Longrightarrow> fsys' (path_str p) = Some Dir"
proof (induction a b fsys p arbitrary: fsys' rule: path_mkdir.induct)
  case (1 parents exist_ok fsys p)
  show ?case
  proof (cases "os_mkdir fsys p")
    case (Inr f)
    with "1.prems" show ?thesis
      by (subst (asm) path_mkdir.simps) (auto dest!: os_mkdir_Inr)
  next
    case (Inl e)
    show ?thesis
    proof (cases "e = FileNotFoundError \<and> \<not> (\<not> parents \<or> parent p = p)")
      case False
      with Inl "1.prems" show ?thesis
        by (subst (asm) path_mkdir.simps) (auto simp: is_dir_def split: if_splits)
    next
      case True
      obtain r1 f1 where up: "path_mkdir True True fsys (parent p) = (r1, f1)"
        by (cases "path_mkdir True True fsys (parent p)")
      from True have e: "e = FileNotFoundError" and rec: "\<not> (\<not> parents \<or> parent p = p)"
        by simp_all
      show ?thesis
      proof (cases r1)
        case (Some e')
        with Inl e rec up "1.prems"(1) show ?thesis
          by (subst (asm) path_mkdir.simps) simp
      next
        case None
        with Inl e rec up "1.prems"(1) have again: "path_mkdir False exist_ok f1 p = (None, fsys')"
          by (subst (asm) path_mkdir.simps) simp
        from "1.IH"(2) [OF Inl e rec up [symmetric] None again "1.prems"(2)]
        show ?thesis .
      qed
    qed
  qed
qed

lemma str_join_snoc: "xs \<noteq> [] \<Longrightarrow> str_join s (xs @ [x]) = str_join s xs @ s @ x"
  by (induction s xs rule: str_join.induct) auto

lemma str_join_nonempty: "xs \<noteq> [] \<Longrightarrow> last xs \<noteq> [] \<Longrightarrow> str_join s xs \<noteq> []"
  by (induction s xs rule: str_join.induct) auto

lemma path_str_joinpath:
  assumes ne: "tail d \<noteq> []" and last: "last (tail d) \<noteq> []"
  shows "path_str (joinpath d name) = path_str d @ sep @ name"
proof (cases "anchor d = []")
  case False
  with ne show ?thesis
    by (simp add: path_str_def joinpath_def str_join_snoc)
next
  case True
  from ne obtain n ns where t: "tail d = n # ns"
    by (cases "tail d") auto
  define t where "t = (if has_drive n then [46] # n # ns else n # ns)"
  have t_ne: "t \<noteq> []" and t_last: "last t \<noteq> []"
    using last t by (auto simp: t_def)
  have d: "path_str d = str_join sep t"
    using True t str_join_nonempty [OF t_ne t_last, of sep]
    by (simp add: path_str_def t_def)
  have "str_join sep (t @ [name]) \<noteq> []"
    by (simp add: str_join_snoc [OF t_ne] sep_def)
  then have "path_str (joinpath d name) = str_join sep (t @ [name])"
    using True t by (cases "has_drive n") (simp_all add: path_str_def joinpath_def t_def Let_def)
  with d show ?thesis
    by (simp add: str_join_snoc [OF t_ne])
qed

lemma path_str_joinpath_neq:
  "tail d \<noteq> [] \<Longrightarrow> last (tail d) \<noteq> [] \<Longrightarrow> path_str (joinpath d name) \<noteq> path_str d"
  by (simp add: path_str_joinpath sep_def)

lemma tail_dest_dir: "tail (dest_dir tmp) \<noteq> []" "last (tail (dest_dir tmp)) \<noteq> []"
  by (simp_all add: dest_dir_def joinpath_def str_of_def)

lemma parent_joinpath: "parent (joinpath d name) = d"
  by (cases d) (simp add: parent_def joinpath_def)

lemma parent_dest_path: "parent (dest_path tmp data) = dest_dir tmp"
  by (simp add: dest_path_def parent_joinpath)

lemma dest_path_str:
  "path_str (dest_path tmp data) =
     path_str (dest_dir tmp) @ sep @ str_of ''cacert-'' @ take 12 (sha256_hexdigest data) @ str_of ''.pem''"
  by (simp add: dest_path_def path_str_joinpath [OF tail_dest_dir])

lemma dest_path_neq_dest_dir: "path_str (dest_path tmp data) \<noteq> path_str (dest_dir tmp)"
  by (simp add: dest_path_str sep_def)

lemma relocate_missing:
  "\<not> path_exists (filesys w) src \<Longrightarrow> relocate h src w = (Inr None, record_io (Exists src) w)"
  by (simp add: relocate_def record_io_def)

lemma relocate_cached:
  assumes dd: "filesys w (path_str (dest_dir (gettempdir h))) = Some Dir"
    and src: "filesys w src = Some (File data)"
    and ex: "filesys w (path_str (dest_path (gettempdir h) data)) = Some n"
  shows "relocate h src w =
     publish (path_str (dest_path (gettempdir h) data))
       (w\<lparr>io_trace := io_trace w @ [Exists src, Mkdir (path_str (dest_dir (gettempdir h))),
           ReadBytes src, Exists (path_str (dest_path (gettempdir h) data))]\<rparr>)"
  using dd src ex
  by (simp add: relocate_def record_io_def path_exists_def path_mkdir_existing read_bytes_def Let_def)

lemma relocate_fresh:
  assumes src: "filesys w src = Some (File data)"
    and mk: "path_mkdir True True (filesys w) (dest_dir (gettempdir h)) = (None, fsys2)"
    and nex: "fsys2 (path_str (dest_path (gettempdir h) data)) = None"
  shows "relocate h src w =
     publish (path_str (dest_path (gettempdir h) data))
       (w\<lparr>io_trace := io_trace w @ [Exists src, Mkdir (path_str (dest_dir (gettempdir h))),
           ReadBytes src, Exists (path_str (dest_path (gettempdir h) data)),
           WriteBytes (path_str (dest_path (gettempdir h) data)) data],
          filesys := fsys2(path_str (dest_path (gettempdir h) data) \<mapsto> File data)\<rparr>)"
proof -
  have s2: "fsys2 src = Some (File data)"
    using path_mkdir_preserves [OF mk, of src] src by simp
  have d2: "fsys2 (path_str (dest_dir (gettempdir h))) = Some Dir"
    using path_mkdir_is_dir [OF mk] by simp
  show ?thesis
    using src mk nex s2 d2
    by (simp add: relocate_def record_io_def path_exists_def read_bytes_def write_bytes_def
        parent_dest_path Let_def)
qed

text \<open>What a call of relocate that returns a path has done.\<close>

lemma relocate_Some:
  assumes "relocate h src w = (Inr (Some p), w')"
  shows "\<exists>data. filesys w src = Some (File data) \<and> p = path_str (dest_path (gettempdir h) data)
           \<and> environ w' = environ_setdefault ((environ w)(CURL_CA_BUNDLE \<mapsto> p)) SSL_CERT_FILE p
           \<and> filesys w' src = Some (File data)
           \<and> filesys w' (path_str (dest_dir (gettempdir h))) = Some Dir
           \<and> filesys w' p \<noteq> None
           \<and> length (writes (io_trace w')) \<le> Suc (length (writes (io_trace w)))"
proof -
  from assms have ex: "path_exists (filesys w) src"
    by (auto simp: relocate_def record_io_def Let_def split: if_splits)
  obtain r2 fsys2 where mk: "path_mkdir True True (filesys w) (dest_dir (gettempdir h)) = (r2, fsys2)"
    by (cases "path_mkdir True True (filesys w) (dest_dir (gettempdir h))")
  from assms ex mk have r2: "r2 = None"
    by (cases r2) (auto simp: relocate_def record_io_def Let_def)
  from assms ex mk r2 obtain data where rd: "read_bytes fsys2 src = Inr data"
    by (cases "read_bytes fsys2 src") (auto simp: relocate_def record_io_def Let_def)
  then have s2: "fsys2 src = Some (File data)"
    by (auto simp: read_bytes_def split: option.splits node.splits)
  from ex have "filesys w src \<noteq> None"
    by (simp add: path_exists_def)
  then have s0: "filesys w src = Some (File data)"
    using path_mkdir_preserves [OF mk, of src] s2 by simp
  have d2: "fsys2 (path_str (dest_dir (gettempdir h))) = Some Dir"
    using path_mkdir_is_dir [OF mk [unfolded r2]] by simp
  let ?d = "path_str (dest_path (gettempdir h) data)"
  show ?thesis
  proof (cases "fsys2 ?d")
    case None
    have "relocate h src w = publish ?d
       (w\<lparr>io_trace := io_trace w @ [Exists src, Mkdir (path_str (dest_dir (gettempdir h))),
           ReadBytes src, Exists ?d, WriteBytes ?d data],
          filesys := fsys2(?d \<mapsto> File data)\<rparr>)"
      by (rule relocate_fresh [OF s0 mk [unfolded r2] None])
    with assms have p: "p = ?d"
      and w': "w' = w\<lparr>io_trace := io_trace w @ [Exists src, Mkdir (path_str (dest_dir (gettempdir h))),
           ReadBytes src, Exists ?d, WriteBytes ?d data],
          filesys := fsys2(?d \<mapsto> File data),
          environ := environ_setdefault ((environ w)(CURL_CA_BUNDLE \<mapsto> ?d)) SSL_CERT_FILE ?d\<rparr>"
      by (auto simp: publish_def)
    have neq: "src \<noteq> ?d"
      using s2 None by auto
    show ?thesis
      using s0 s2 d2 neq dest_path_neq_dest_dir [of "gettempdir h" data]
      by (intro exI [of _ data]) (simp add: p w' writes_def)
  next
    case (Some n)
    from assms ex mk r2 rd Some have p: "p = ?d"
      and w': "w' = w\<lparr>io_trace := io_trace w @ [Exists src, Mkdir (path_str (dest_dir (gettempdir h))),
           ReadBytes src, Exists ?d],
          filesys := fsys2,
          environ := environ_setdefault ((environ w)(CURL_CA_BUNDLE \<mapsto> ?d)) SSL_CERT_FILE ?d\<rparr>"
      by (auto simp: relocate_def record_io_def path_exists_def publish_def Let_def)
    show ?thesis
      using s0 s2 d2 Some
      by (intro exI [of _ data]) (simp add: p w' writes_def)
  qed
qed

lemma relocate_None:
  assumes "relocate h src w = (Inr None, w')"
  shows "w' = record_io (Exists src) w"
  using assms
  by (auto simp: relocate_def Let_def publish_def split: if_splits prod.splits option.splits sum.splits)

lemma relocate_Inl:
  assumes "relocate h src w = (Inl e, w')"
  shows "environ w' = environ w"
  using assms
  by (auto simp: relocate_def Let_def publish_def record_io_def split: if_splits prod.splits option.splits sum.splits)

text \<open>
  The model of SHA-256 agrees with the test vectors of FIPS 180-4 for the one-block
  message \<open>abc\<close> and for the two-block message of 56 bytes.
\<close>

lemma sha256_abc:
  "sha256_hexdigest [0x61, 0x62, 0x63]
     = str_of ''ba7816bf8f01cfea414140de5dae2223b00361a396177a9cb410ff61f20015ad''"
  by code_simp

lemma sha256_two_blocks:
  "sha256_hexdigest (map of_char ''abcdbcdecdefdefgefghfghighijhijkijkljklmklmnlmnomnopnopq'')
     = str_of ''248d6a61d20638b8e5c026930c3e6039a33ce45964ff2167f6ecedd419db06c1''"
  by code_simp

lemma sha256_A: "take 12 (sha256_hexdigest [0x41]) = str_of ''559aead08264''"
  by code_simp

lemma not_ascii_src_cjk: "\<not> is_ascii src_cjk"
  by (simp add: is_ascii_iff src_cjk_def)

lemma startswith_win32: "startswith (str_of ''win32'') (str_of ''win'')"
  by (simp add: startswith_def str_of_def)

lemma not_startswith_linux: "\<not> startswith (str_of ''linux'') (str_of ''win'')"
  by (simp add: startswith_def str_of_def)

lemma env_names_differ: "CURL_CA_BUNDLE \<noteq> SSL_CERT_FILE"
  by (simp add: CURL_CA_BUNDLE_def SSL_CERT_FILE_def str_of_def)

lemma no_override_empty: "environ_get_nonempty Map.empty k = None"
  by (simp add: environ_get_nonempty_def)

text \<open>Creating the destination directory under an existing temp directory.\<close>

lemma path_mkdir_under_tmp:
  assumes tmp: "fsys (path_str tmp) = Some Dir"
    and a: "fsys (path_str (joinpath tmp (str_of ''sora2api''))) = None"
    and b: "fsys (path_str (dest_dir tmp)) = None"
  shows "path_mkdir True True fsys (dest_dir tmp) =
           (None, fsys(path_str (joinpath tmp (str_of ''sora2api'')) \<mapsto> Dir, path_str (dest_dir tmp) \<mapsto> Dir))"
proof -
  let ?a = "joinpath tmp (str_of ''sora2api'')"
  have pa: "parent ?a = tmp" and pd: "parent (dest_dir tmp) = ?a"
    by (simp_all add: parent_joinpath dest_dir_def)
  have ta: "tail ?a \<noteq> []" and td: "tail (dest_dir tmp) \<noteq> []"
    by (simp_all add: joinpath_def dest_dir_def)
  have neq: "path_str (dest_dir tmp) \<noteq> path_str ?a"
    unfolding dest_dir_def by (rule path_str_joinpath_neq) (simp_all add: joinpath_def str_of_def)
  have mk_a: "path_mkdir True True fsys ?a = (None, fsys(path_str ?a \<mapsto> Dir))"
    using tmp a ta by (subst path_mkdir.simps) (simp add: os_mkdir_def pa)
  have na: "parent (dest_dir tmp) \<noteq> dest_dir tmp"
    using pd by (simp add: dest_dir_def joinpath_def)
  have first: "os_mkdir fsys (dest_dir tmp) = Inl FileNotFoundError"
    using a b td by (simp add: os_mkdir_def pd)
  have second: "path_mkdir False True (fsys(path_str ?a \<mapsto> Dir)) (dest_dir tmp)
      = (None, fsys(path_str ?a \<mapsto> Dir, path_str (dest_dir tmp) \<mapsto> Dir))"
    using b td neq by (subst path_mkdir.simps) (simp add: os_mkdir_def pd)
  show ?thesis
    using first na mk_a second by (subst path_mkdir.simps) (simp add: pd)
qed

section \<open>The claims\<close>

text \<open>
  Claim C2. When \<open>CURL_CA_BUNDLE\<close> is already set to a non-empty value, the routine
  returns exactly that value and leaves the whole world as it was: the environment, the
  filesystem and the list of filesystem operations are unchanged. Nothing is assumed of
  the platform, of the provider or of the source path.
\<close>

theorem override_returned_unchanged:
  assumes "environ w CURL_CA_BUNDLE = Some v" and "v \<noteq> []"
  shows "ensure_curl_cffi_ca_bundle h w = (Inr (Some v), w)"
  using assms by (simp add: ensure_curl_cffi_ca_bundle_def environ_get_nonempty_def)

theorem override_returned_unchanged_witness:
  "environ world_override CURL_CA_BUNDLE = Some (str_of ''/etc/ssl/custom.pem'')
   \<and> str_of ''/etc/ssl/custom.pem'' \<noteq> []
   \<and> ensure_curl_cffi_ca_bundle host_win world_override
        = (Inr (Some (str_of ''/etc/ssl/custom.pem'')), world_override)"
proof -
  have a: "environ world_override CURL_CA_BUNDLE = Some (str_of ''/etc/ssl/custom.pem'')"
    by (simp add: world_override_def)
  have b: "str_of ''/etc/ssl/custom.pem'' \<noteq> []"
    by (simp add: str_of_def)
  show ?thesis
    using a b override_returned_unchanged [OF a b, of host_win] by simp
qed

text \<open>
  Claim C6. With no override set, on a platform whose name does not start with \<open>win\<close>
  the routine returns \<open>None\<close> and leaves the whole world as it was, whatever the provider
  and the source path are.
\<close>

theorem other_platform_no_action:
  assumes "environ_get_nonempty (environ w) CURL_CA_BUNDLE = None"
    and "\<not> startswith (sys_platform h) (str_of ''win'')"
  shows "ensure_curl_cffi_ca_bundle h w = (Inr None, w)"
  using assms by (simp add: ensure_curl_cffi_ca_bundle_def)

theorem other_platform_no_action_witness:
  "environ_get_nonempty (environ world_fresh) CURL_CA_BUNDLE = None
   \<and> \<not> startswith (sys_platform host_linux) (str_of ''win'')
   \<and> ensure_curl_cffi_ca_bundle host_linux world_fresh = (Inr None, world_fresh)"
proof -
  have a: "environ_get_nonempty (environ world_fresh) CURL_CA_BUNDLE = None"
    by (simp add: world_fresh_def no_override_empty)
  have b: "\<not> startswith (sys_platform host_linux) (str_of ''win'')"
    by (simp add: host_linux_def not_startswith_linux)
  show ?thesis
    using a b other_platform_no_action [OF a b] by simp
qed

text \<open>
  Claim C7. With no override set, on a Windows platform, when the provider gives a
  source path that is ASCII-only, the routine returns \<open>None\<close> and leaves the whole world
  as it was.
\<close>

theorem ascii_source_no_action:
  assumes "environ_get_nonempty (environ w) CURL_CA_BUNDLE = None"
    and "startswith (sys_platform h) (str_of ''win'')"
    and "certifi_import h = Inr (Inr src_path)"
    and "is_ascii src_path"
  shows "ensure_curl_cffi_ca_bundle h w = (Inr None, w)"
  using assms by (simp add: ensure_curl_cffi_ca_bundle_def)

theorem ascii_source_no_action_witness:
  "environ_get_nonempty (environ world_fresh) CURL_CA_BUNDLE = None
   \<and> startswith (sys_platform host_ascii_src) (str_of ''win'')
   \<and> certifi_import host_ascii_src
        = Inr (Inr (str_of ''C:'' @ sep @ str_of ''certifi'' @ sep @ str_of ''cacert.pem''))
   \<and> is_ascii (str_of ''C:'' @ sep @ str_of ''certifi'' @ sep @ str_of ''cacert.pem'')
   \<and> ensure_curl_cffi_ca_bundle host_ascii_src world_fresh = (Inr None, world_fresh)"
proof -
  have a: "environ_get_nonempty (environ world_fresh) CURL_CA_BUNDLE = None"
    by (simp add: world_fresh_def no_override_empty)
  have b: "startswith (sys_platform host_ascii_src) (str_of ''win'')"
    by (simp add: host_ascii_src_def host_win_def startswith_win32)
  have c: "certifi_import host_ascii_src
        = Inr (Inr (str_of ''C:'' @ sep @ str_of ''certifi'' @ sep @ str_of ''cacert.pem''))"
    by (simp add: host_ascii_src_def)
  have d: "is_ascii (str_of ''C:'' @ sep @ str_of ''certifi'' @ sep @ str_of ''cacert.pem'')"
    by (simp add: is_ascii_iff str_of_def sep_def)
  show ?thesis
    using a b c d ascii_source_no_action [OF a b c d] by simp
qed

text \<open>
  Claim C8, amended. With no override set, on a Windows platform, when the provider
  gives a source path that is not ASCII-only and nothing exists at that path
  (\<open>src.exists()\<close> is false), the routine returns \<open>None\<close>; the environment and the
  filesystem are unchanged, and the only filesystem operation made is the existence test
  itself: no directory is created and no file is written. The claim as stated, for
  every path that is not an existing file, fails when a directory is at the path, as
  the last theorem of this theory shows.
\<close>

theorem missing_source_no_action:
  assumes "environ_get_nonempty (environ w) CURL_CA_BUNDLE = None"
    and "startswith (sys_platform h) (str_of ''win'')"
    and "certifi_import h = Inr (Inr src_path)"
    and "\<not> is_ascii src_path"
    and "\<not> path_exists (filesys w) src_path"
  shows "fst (ensure_curl_cffi_ca_bundle h w) = Inr None
     \<and> environ (snd (ensure_curl_cffi_ca_bundle h w)) = environ w
     \<and> filesys (snd (ensure_curl_cffi_ca_bundle h w)) = filesys w
     \<and> io_trace (snd (ensure_curl_cffi_ca_bundle h w)) = io_trace w @ [Exists src_path]"
  using assms by (simp add: ensure_curl_cffi_ca_bundle_def relocate_missing record_io_def)

theorem missing_source_no_action_witness:
  "environ_get_nonempty (environ world_no_src) CURL_CA_BUNDLE = None
   \<and> startswith (sys_platform host_win) (str_of ''win'')
   \<and> certifi_import host_win = Inr (Inr src_cjk)
   \<and> \<not> is_ascii src_cjk
   \<and> \<not> path_exists (filesys world_no_src) src_cjk
   \<and> fst (ensure_curl_cffi_ca_bundle host_win world_no_src) = Inr None
   \<and> environ (snd (ensure_curl_cffi_ca_bundle host_win world_no_src)) = environ world_no_src
   \<and> filesys (snd (ensure_curl_cffi_ca_bundle host_win world_no_src)) = filesys world_no_src
   \<and> io_trace (snd (ensure_curl_cffi_ca_bundle host_win world_no_src)) = [Exists src_cjk]"
proof -
  have a: "environ_get_nonempty (environ world_no_src) CURL_CA_BUNDLE = None"
    by (simp add: world_no_src_def world_fresh_def no_override_empty)
  have b: "startswith (sys_platform host_win) (str_of ''win'')"
    by (simp add: host_win_def startswith_win32)
  have c: "certifi_import host_win = Inr (Inr src_cjk)"
    by (simp add: host_win_def)
  have e: "\<not> path_exists (filesys world_no_src) src_cjk"
    by (simp add: world_no_src_def path_exists_def tmp_win_def path_str_def src_cjk_def sep_def str_of_def)
  have t: "io_trace world_no_src = []"
    by (simp add: world_no_src_def world_fresh_def)
  show ?thesis
    using a b c not_ascii_src_cjk e missing_source_no_action [OF a b c not_ascii_src_cjk e] t
    by simp
qed

text \<open>
  Claim C4, as stated, fails: the \<open>try\<close> block (lines 41-44) covers the import alone,
  and \<open>certifi.where()\<close> on line 46 is outside it. When the module is imported and its
  \<open>where()\<close> raises, the exception reaches the caller.
\<close>

theorem provider_error_propagates_counterexample:
  "fst (ensure_curl_cffi_ca_bundle host_where_raises world_fresh)
     = Inl (OtherException (str_of ''RuntimeError''))
   \<and> fst (ensure_curl_cffi_ca_bundle host_where_raises world_fresh) \<noteq> Inr None"
  by (simp add: ensure_curl_cffi_ca_bundle_def host_where_raises_def host_win_def world_fresh_def
      no_override_empty startswith_win32)

text \<open>
  Claim C4, amended. When \<open>import certifi\<close> raises an exception that derives from
  \<open>Exception\<close> (the provider is not installed or cannot be imported), the routine raises
  nothing and leaves the whole world as it was; with no override set it returns \<open>None\<close>.
\<close>

theorem import_failure_no_action:
  assumes "certifi_import h = Inl e" and "is_Exception e"
  shows "snd (ensure_curl_cffi_ca_bundle h w) = w
     \<and> (\<forall>x. fst (ensure_curl_cffi_ca_bundle h w) \<noteq> Inl x)
     \<and> (environ_get_nonempty (environ w) CURL_CA_BUNDLE = None
          \<longrightarrow> fst (ensure_curl_cffi_ca_bundle h w) = Inr None)"
  using assms by (simp add: ensure_curl_cffi_ca_bundle_def split: option.splits)

theorem import_failure_no_action_witness:
  "certifi_import host_no_certifi = Inl ModuleNotFoundError
   \<and> is_Exception ModuleNotFoundError
   \<and> environ_get_nonempty (environ world_fresh) CURL_CA_BUNDLE = None
   \<and> snd (ensure_curl_cffi_ca_bundle host_no_certifi world_fresh) = world_fresh
   \<and> fst (ensure_curl_cffi_ca_bundle host_no_certifi world_fresh) = Inr None"
proof -
  have a: "certifi_import host_no_certifi = Inl ModuleNotFoundError"
    by (simp add: host_no_certifi_def)
  have b: "is_Exception ModuleNotFoundError"
    by simp
  have c: "environ_get_nonempty (environ world_fresh) CURL_CA_BUNDLE = None"
    by (simp add: world_fresh_def no_override_empty)
  show ?thesis
    using a b c import_failure_no_action [OF a b, of world_fresh] by simp
qed

text \<open>
  What any call has done, by its result: after \<open>None\<close> the environment and the
  filesystem are unchanged; after an exception the environment is unchanged; a path is
  returned either as the override, with the world unchanged, or by relocate.
\<close>

lemma ensure_cases:
  assumes "ensure_curl_cffi_ca_bundle h w = (r, w')"
  shows "(\<exists>v. environ_get_nonempty (environ w) CURL_CA_BUNDLE = Some v \<and> r = Inr (Some v) \<and> w' = w)
     \<or> (environ_get_nonempty (environ w) CURL_CA_BUNDLE = None \<and> r = Inr None \<and> w' = w)
     \<or> (environ_get_nonempty (environ w) CURL_CA_BUNDLE = None \<and> (\<exists>e. r = Inl e) \<and> w' = w)
     \<or> (environ_get_nonempty (environ w) CURL_CA_BUNDLE = None
          \<and> startswith (sys_platform h) (str_of ''win'')
          \<and> (\<exists>src. certifi_import h = Inr (Inr src) \<and> \<not> is_ascii src \<and> relocate h src w = (r, w')))"
  using assms
  by (auto simp: ensure_curl_cffi_ca_bundle_def split: option.splits if_splits sum.splits)

lemma environ_get_nonempty_Some:
  "environ_get_nonempty e k = Some v \<Longrightarrow> e k = Some v \<and> v \<noteq> []"
  by (auto simp: environ_get_nonempty_def split: option.splits if_splits)

lemma environ_get_nonempty_None:
  "environ_get_nonempty e k = None \<Longrightarrow> e k \<noteq> Some v \<or> v = []"
  by (auto simp: environ_get_nonempty_def split: option.splits if_splits)

lemma dest_path_nonempty: "path_str (dest_path tmp data) \<noteq> []"
  by (simp add: dest_path_str sep_def)

text \<open>
  Claim C9. Whenever the routine returns \<open>None\<close>, the environment and the filesystem
  are exactly as before the call. The environment changes only in a call that returns
  the destination path, which is then the value of \<open>CURL_CA_BUNDLE\<close>; and, with no
  override set, every call that returns a path has changed the environment.
\<close>

theorem no_action_leaves_world:
  "(fst (ensure_curl_cffi_ca_bundle h w) = Inr None \<longrightarrow>
      environ (snd (ensure_curl_cffi_ca_bundle h w)) = environ w
      \<and> filesys (snd (ensure_curl_cffi_ca_bundle h w)) = filesys w)
   \<and> (environ (snd (ensure_curl_cffi_ca_bundle h w)) \<noteq> environ w \<longrightarrow>
        (\<exists>data. fst (ensure_curl_cffi_ca_bundle h w) = Inr (Some (path_str (dest_path (gettempdir h) data)))
           \<and> environ (snd (ensure_curl_cffi_ca_bundle h w)) CURL_CA_BUNDLE
                = Some (path_str (dest_path (gettempdir h) data))))
   \<and> (environ_get_nonempty (environ w) CURL_CA_BUNDLE = None
        \<and> (\<exists>p. fst (ensure_curl_cffi_ca_bundle h w) = Inr (Some p)) \<longrightarrow>
        environ (snd (ensure_curl_cffi_ca_bundle h w)) \<noteq> environ w)"
proof -
  obtain r w' where rw: "ensure_curl_cffi_ca_bundle h w = (r, w')"
    by (cases "ensure_curl_cffi_ca_bundle h w")
  have none: "environ w' = environ w \<and> filesys w' = filesys w" if "r = Inr None"
    using ensure_cases [OF rw] that
    by (auto dest!: relocate_None simp: record_io_def)
  have changed: "\<exists>data. r = Inr (Some (path_str (dest_path (gettempdir h) data)))
      \<and> environ w' CURL_CA_BUNDLE = Some (path_str (dest_path (gettempdir h) data))"
    if ch: "environ w' \<noteq> environ w"
  proof -
    from ensure_cases [OF rw] ch obtain src where rel: "relocate h src w = (r, w')"
      by auto
    show ?thesis
    proof (cases r)
      case (Inl e)
      with rel ch show ?thesis
        by (auto dest: relocate_Inl)
    next
      case (Inr v)
      show ?thesis
      proof (cases v)
        case None
        with Inr rel ch show ?thesis
          by (auto dest!: relocate_None simp: record_io_def)
      next
        case (Some p)
        from relocate_Some [OF rel [unfolded Inr Some]] Inr Some show ?thesis
          by (auto simp: environ_setdefault_def env_names_differ split: option.splits)
      qed
    qed
  qed
  have some: "environ w' \<noteq> environ w"
    if no: "environ_get_nonempty (environ w) CURL_CA_BUNDLE = None" and p: "r = Inr (Some p)" for p
  proof -
    from ensure_cases [OF rw] no p obtain src where rel: "relocate h src w = (Inr (Some p), w')"
      by auto
    from relocate_Some [OF rel] obtain data where
      pd: "p = path_str (dest_path (gettempdir h) data)"
      and env: "environ w' = environ_setdefault ((environ w)(CURL_CA_BUNDLE \<mapsto> p)) SSL_CERT_FILE p"
      by blast
    from env have "environ w' CURL_CA_BUNDLE = Some p"
      by (auto simp: environ_setdefault_def env_names_differ split: option.splits)
    moreover have "p \<noteq> []"
      using pd dest_path_nonempty by simp
    ultimately show ?thesis
      using environ_get_nonempty_None [OF no, of p] by auto
  qed
  show ?thesis
    using none changed some by (auto simp: rw)
qed

lemma relocate_None_missing:
  assumes "relocate h src w = (Inr None, w')"
  shows "\<not> path_exists (filesys w) src"
  using assms
  by (auto simp: relocate_def Let_def publish_def record_io_def
      split: if_splits prod.splits option.splits sum.splits)

lemma ensure_relocate:
  assumes "environ_get_nonempty (environ w) CURL_CA_BUNDLE = None"
    and "startswith (sys_platform h) (str_of ''win'')"
    and "certifi_import h = Inr (Inr src)"
    and "\<not> is_ascii src"
  shows "ensure_curl_cffi_ca_bundle h w = relocate h src w"
  using assms by (simp add: ensure_curl_cffi_ca_bundle_def)

lemma ensure_override:
  assumes "environ w CURL_CA_BUNDLE = Some v" and "v \<noteq> []"
  shows "ensure_curl_cffi_ca_bundle h w = (Inr (Some v), w)"
  using assms by (simp add: ensure_curl_cffi_ca_bundle_def environ_get_nonempty_def)

lemma setdefault_as_update:
  "CURL_CA_BUNDLE \<noteq> SSL_CERT_FILE \<Longrightarrow>
   environ_setdefault (e(CURL_CA_BUNDLE \<mapsto> p)) SSL_CERT_FILE p
     = e(CURL_CA_BUNDLE \<mapsto> p, SSL_CERT_FILE \<mapsto> (case e SSL_CERT_FILE of None \<Rightarrow> p | Some v \<Rightarrow> v))"
  by (auto simp: environ_setdefault_def fun_eq_iff split: option.splits)

text \<open>
  Claim C5. After a successful relocation (no override was set and the call returned a
  path \<open>p\<close>), \<open>p\<close> is the destination path of the bytes of the source file,
  \<open>CURL_CA_BUNDLE\<close> is \<open>p\<close> whatever it was before, \<open>SSL_CERT_FILE\<close> is \<open>p\<close> if
  it was not set and keeps its value if it was, and no other variable has changed.
\<close>

theorem relocation_publishes_destination:
  assumes no: "environ_get_nonempty (environ w) CURL_CA_BUNDLE = None"
    and res: "ensure_curl_cffi_ca_bundle h w = (Inr (Some p), w')"
  shows "environ w' CURL_CA_BUNDLE = Some p
     \<and> environ w' SSL_CERT_FILE = Some (case environ w SSL_CERT_FILE of None \<Rightarrow> p | Some v \<Rightarrow> v)
     \<and> environ w' = (environ w)(CURL_CA_BUNDLE \<mapsto> p,
          SSL_CERT_FILE \<mapsto> (case environ w SSL_CERT_FILE of None \<Rightarrow> p | Some v \<Rightarrow> v))
     \<and> (\<exists>src data. certifi_import h = Inr (Inr src) \<and> filesys w src = Some (File data)
           \<and> p = path_str (dest_path (gettempdir h) data))"
proof -
  from ensure_cases [OF res] no obtain src where
    cert: "certifi_import h = Inr (Inr src)" and rel: "relocate h src w = (Inr (Some p), w')"
    by auto
  from relocate_Some [OF rel] obtain data where
    src: "filesys w src = Some (File data)"
    and p: "p = path_str (dest_path (gettempdir h) data)"
    and env: "environ w' = environ_setdefault ((environ w)(CURL_CA_BUNDLE \<mapsto> p)) SSL_CERT_FILE p"
    by blast
  have env': "environ w' = (environ w)(CURL_CA_BUNDLE \<mapsto> p,
      SSL_CERT_FILE \<mapsto> (case environ w SSL_CERT_FILE of None \<Rightarrow> p | Some v \<Rightarrow> v))"
    using env by (simp only: setdefault_as_update [OF env_names_differ])
  have "environ w' CURL_CA_BUNDLE = Some p"
    by (simp add: env' env_names_differ)
  moreover have "environ w' SSL_CERT_FILE = Some (case environ w SSL_CERT_FILE of None \<Rightarrow> p | Some v \<Rightarrow> v)"
    by (simp add: env')
  ultimately show ?thesis
    using env' cert src p by blast
qed

text \<open>
  Claim C10. When the destination file already exists (and so its directory does), the
  routine does not read it and does not write it: the filesystem is unchanged, the
  operations made are the existence test and the read of the source, the making of the
  directory and the existence test of the destination, and the destination path is
  returned and published in \<open>CURL_CA_BUNDLE\<close>. What is at the destination is
  arbitrary: when its bytes differ from the source's, the returned path refers to the
  differing content.
\<close>

theorem existing_destination_not_verified:
  assumes no: "environ_get_nonempty (environ w) CURL_CA_BUNDLE = None"
    and win: "startswith (sys_platform h) (str_of ''win'')"
    and cert: "certifi_import h = Inr (Inr src)"
    and na: "\<not> is_ascii src"
    and src: "filesys w src = Some (File data)"
    and dd: "filesys w (path_str (dest_dir (gettempdir h))) = Some Dir"
    and ex: "filesys w (path_str (dest_path (gettempdir h) data)) = Some n"
  shows "fst (ensure_curl_cffi_ca_bundle h w) = Inr (Some (path_str (dest_path (gettempdir h) data)))
     \<and> filesys (snd (ensure_curl_cffi_ca_bundle h w)) = filesys w
     \<and> filesys (snd (ensure_curl_cffi_ca_bundle h w)) (path_str (dest_path (gettempdir h) data)) = Some n
     \<and> io_trace (snd (ensure_curl_cffi_ca_bundle h w))
          = io_trace w @ [Exists src, Mkdir (path_str (dest_dir (gettempdir h))), ReadBytes src,
                          Exists (path_str (dest_path (gettempdir h) data))]
     \<and> environ (snd (ensure_curl_cffi_ca_bundle h w)) CURL_CA_BUNDLE
          = Some (path_str (dest_path (gettempdir h) data))"
  using ex
  by (simp add: ensure_relocate [OF no win cert na] relocate_cached [OF dd src ex] publish_def
      setdefault_as_update [OF env_names_differ] env_names_differ)

text \<open>
  Claim C1. With no override set, on a Windows platform, for a source path that is not
  ASCII-only and names a file with bytes \<open>data\<close>: when the call returns, it returns the
  destination path, which is a function of the temp directory and of \<open>data\<close> alone and
  ends in the first 12 characters of the SHA-256 hex digest. A second call returns the
  same path and writes nothing, both in the same process (the path is now the override,
  and the world stays as it is) and in a process that starts with any environment without
  an override on the same filesystem (the file is found present). So the destination is
  written at most once over the two calls.
\<close>

theorem relocation_is_idempotent:
  assumes no: "environ_get_nonempty (environ w) CURL_CA_BUNDLE = None"
    and win: "startswith (sys_platform h) (str_of ''win'')"
    and cert: "certifi_import h = Inr (Inr src)"
    and na: "\<not> is_ascii src"
    and src: "filesys w src = Some (File data)"
    and first: "ensure_curl_cffi_ca_bundle h w = (Inr r1, w1)"
    and fresh: "environ_get_nonempty e2 CURL_CA_BUNDLE = None"
  shows "r1 = Some (path_str (dest_path (gettempdir h) data))
     \<and> path_str (dest_path (gettempdir h) data)
          = path_str (dest_dir (gettempdir h)) @ sep @ str_of ''cacert-''
              @ take 12 (sha256_hexdigest data) @ str_of ''.pem''
     \<and> length (take 12 (sha256_hexdigest data)) = 12
     \<and> ensure_curl_cffi_ca_bundle h w1 = (Inr (Some (path_str (dest_path (gettempdir h) data))), w1)
     \<and> fst (ensure_curl_cffi_ca_bundle h (w1\<lparr>environ := e2\<rparr>))
          = Inr (Some (path_str (dest_path (gettempdir h) data)))
     \<and> filesys (snd (ensure_curl_cffi_ca_bundle h (w1\<lparr>environ := e2\<rparr>))) = filesys w1
     \<and> writes (io_trace (snd (ensure_curl_cffi_ca_bundle h (w1\<lparr>environ := e2\<rparr>)))) = writes (io_trace w1)
     \<and> length (writes (io_trace w1)) \<le> Suc (length (writes (io_trace w)))"
proof -
  let ?d = "path_str (dest_path (gettempdir h) data)"
  from first have rel: "relocate h src w = (Inr r1, w1)"
    by (simp add: ensure_relocate [OF no win cert na])
  have "r1 \<noteq> None"
    using relocate_None_missing [of h src w w1] rel src by (auto simp: path_exists_def)
  then obtain p where r1: "r1 = Some p"
    by auto
  from relocate_Some [OF rel [unfolded r1]] src have p: "p = ?d"
    and env: "environ w1 = environ_setdefault ((environ w)(CURL_CA_BUNDLE \<mapsto> p)) SSL_CERT_FILE p"
    and s1: "filesys w1 src = Some (File data)"
    and d1: "filesys w1 (path_str (dest_dir (gettempdir h))) = Some Dir"
    and e1: "filesys w1 ?d \<noteq> None"
    and wr: "length (writes (io_trace w1)) \<le> Suc (length (writes (io_trace w)))"
    by auto
  from e1 obtain n where n: "filesys w1 ?d = Some n"
    by auto
  have "environ w1 CURL_CA_BUNDLE = Some ?d"
    using env p by (simp add: setdefault_as_update [OF env_names_differ] env_names_differ)
  then have same: "ensure_curl_cffi_ca_bundle h w1 = (Inr (Some ?d), w1)"
    by (rule ensure_override) (rule dest_path_nonempty)
  let ?w2 = "w1\<lparr>environ := e2\<rparr>"
  have again: "ensure_curl_cffi_ca_bundle h ?w2 = relocate h src ?w2"
    by (rule ensure_relocate) (simp_all add: fresh win cert na)
  have "relocate h src ?w2 = publish ?d
       (?w2\<lparr>io_trace := io_trace ?w2 @ [Exists src, Mkdir (path_str (dest_dir (gettempdir h))),
           ReadBytes src, Exists ?d]\<rparr>)"
    by (rule relocate_cached [where n = n]) (simp_all add: d1 s1 n)
  with again have second: "fst (ensure_curl_cffi_ca_bundle h ?w2) = Inr (Some ?d)"
    "filesys (snd (ensure_curl_cffi_ca_bundle h ?w2)) = filesys w1"
    "writes (io_trace (snd (ensure_curl_cffi_ca_bundle h ?w2))) = writes (io_trace w1)"
    by (simp_all add: publish_def writes_def)
  show ?thesis
    using r1 p same second wr by (simp add: dest_path_str length_hexdigest)
qed

subsection \<open>The routine on the example worlds\<close>

text \<open>
  A first relocation under an existing temp directory that holds no \<open>sora2api\<close> entry
  yet: both directories are made and the file is written.
\<close>

lemma ensure_first_relocation:
  assumes no: "environ_get_nonempty (environ w) CURL_CA_BUNDLE = None"
    and win: "startswith (sys_platform h) (str_of ''win'')"
    and cert: "certifi_import h = Inr (Inr src)"
    and na: "\<not> is_ascii src"
    and src: "filesys w src = Some (File data)"
    and tmp: "filesys w (path_str (gettempdir h)) = Some Dir"
    and a: "filesys w (path_str (joinpath (gettempdir h) (str_of ''sora2api''))) = None"
    and b: "filesys w (path_str (dest_dir (gettempdir h))) = None"
    and c: "filesys w (path_str (dest_path (gettempdir h) data)) = None"
  shows "ensure_curl_cffi_ca_bundle h w =
     publish (path_str (dest_path (gettempdir h) data))
       (w\<lparr>io_trace := io_trace w @ [Exists src, Mkdir (path_str (dest_dir (gettempdir h))),
           ReadBytes src, Exists (path_str (dest_path (gettempdir h) data)),
           WriteBytes (path_str (dest_path (gettempdir h) data)) data],
          filesys := (filesys w)(path_str (joinpath (gettempdir h) (str_of ''sora2api'')) \<mapsto> Dir,
             path_str (dest_dir (gettempdir h)) \<mapsto> Dir,
             path_str (dest_path (gettempdir h) data) \<mapsto> File data)\<rparr>)"
proof -
  let ?a = "path_str (joinpath (gettempdir h) (str_of ''sora2api''))"
  let ?dd = "path_str (dest_dir (gettempdir h))"
  let ?d = "path_str (dest_path (gettempdir h) data)"
  have dd: "?dd = ?a @ sep @ str_of ''certs''"
    unfolding dest_dir_def by (rule path_str_joinpath) (simp_all add: joinpath_def str_of_def)
  have "?d \<noteq> ?a"
    by (simp add: dest_path_str dd sep_def)
  then have nex: "((filesys w)(?a \<mapsto> Dir, ?dd \<mapsto> Dir)) ?d = None"
    using c dest_path_neq_dest_dir [of "gettempdir h" data] by simp
  show ?thesis
    unfolding ensure_relocate [OF no win cert na]
    by (rule relocate_fresh [OF src path_mkdir_under_tmp [OF tmp a b] nex])
qed

lemma ensure_host_win_fresh:
  "ensure_curl_cffi_ca_bundle host_win world_fresh =
     publish (path_str (dest_path tmp_win [0x41]))
       (world_fresh\<lparr>io_trace := [Exists src_cjk, Mkdir (path_str (dest_dir tmp_win)),
           ReadBytes src_cjk, Exists (path_str (dest_path tmp_win [0x41])),
           WriteBytes (path_str (dest_path tmp_win [0x41])) [0x41]],
          filesys := (filesys world_fresh)(path_str (joinpath tmp_win (str_of ''sora2api'')) \<mapsto> Dir,
             path_str (dest_dir tmp_win) \<mapsto> Dir,
             path_str (dest_path tmp_win [0x41]) \<mapsto> File [0x41])\<rparr>)"
proof -
  have no: "environ_get_nonempty (environ world_fresh) CURL_CA_BUNDLE = None"
    by (simp add: world_fresh_def no_override_empty)
  have win: "startswith (sys_platform host_win) (str_of ''win'')"
    by (simp add: host_win_def startswith_win32)
  have cert: "certifi_import host_win = Inr (Inr src_cjk)"
    by (simp add: host_win_def)
  have tmp: "gettempdir host_win = tmp_win"
    by (simp add: host_win_def)
  have src: "filesys world_fresh src_cjk = Some (File [0x41])"
    by (simp add: world_fresh_def)
  have t: "filesys world_fresh (path_str (gettempdir host_win)) = Some Dir"
    by (simp add: tmp world_fresh_def tmp_win_def path_str_def src_cjk_def sep_def str_of_def)
  have a: "filesys world_fresh (path_str (joinpath (gettempdir host_win) (str_of ''sora2api''))) = None"
    by (simp add: tmp world_fresh_def tmp_win_def path_str_def joinpath_def src_cjk_def sep_def str_of_def)
  have b: "filesys world_fresh (path_str (dest_dir (gettempdir host_win))) = None"
    by (simp add: tmp world_fresh_def tmp_win_def path_str_def dest_dir_def joinpath_def src_cjk_def
        sep_def str_of_def)
  have c: "filesys world_fresh (path_str (dest_path (gettempdir host_win) [0x41])) = None"
    by (simp add: tmp world_fresh_def tmp_win_def path_str_def dest_path_def dest_dir_def joinpath_def
        src_cjk_def sep_def str_of_def)
  have tr: "io_trace world_fresh = []"
    by (simp add: world_fresh_def)
  show ?thesis
    using ensure_first_relocation [OF no win cert not_ascii_src_cjk src t a b c]
    by (simp add: tmp tr)
qed

lemma ensure_host_win_stale:
  "ensure_curl_cffi_ca_bundle host_win world_stale =
     publish (path_str (dest_path tmp_win [0x41]))
       (world_stale\<lparr>io_trace := [Exists src_cjk, Mkdir (path_str (dest_dir tmp_win)),
           ReadBytes src_cjk, Exists (path_str (dest_path tmp_win [0x41]))]\<rparr>)"
proof -
  have no: "environ_get_nonempty (environ world_stale) CURL_CA_BUNDLE = None"
    by (simp add: world_stale_def environ_get_nonempty_def env_names_differ)
  have win: "startswith (sys_platform host_win) (str_of ''win'')"
    by (simp add: host_win_def startswith_win32)
  have cert: "certifi_import host_win = Inr (Inr src_cjk)"
    by (simp add: host_win_def)
  have tmp: "gettempdir host_win = tmp_win"
    by (simp add: host_win_def)
  have src: "filesys world_stale src_cjk = Some (File [0x41])"
    by (simp add: world_stale_def tmp_win_def path_str_def dest_path_def dest_dir_def joinpath_def
        src_cjk_def sep_def str_of_def)
  have dd: "filesys world_stale (path_str (dest_dir (gettempdir host_win))) = Some Dir"
    by (simp add: tmp world_stale_def dest_path_neq_dest_dir [symmetric])
  have ex: "filesys world_stale (path_str (dest_path (gettempdir host_win) [0x41])) = Some (File [0x42])"
    by (simp add: tmp world_stale_def)
  have tr: "io_trace world_stale = []"
    by (simp add: world_stale_def)
  show ?thesis
    using relocate_cached [OF dd src ex]
    by (simp add: ensure_relocate [OF no win cert not_ascii_src_cjk] tmp tr)
qed

theorem no_action_leaves_world_witness:
  "fst (ensure_curl_cffi_ca_bundle host_ascii_src world_fresh) = Inr None
   \<and> environ (snd (ensure_curl_cffi_ca_bundle host_ascii_src world_fresh)) = environ world_fresh
   \<and> filesys (snd (ensure_curl_cffi_ca_bundle host_ascii_src world_fresh)) = filesys world_fresh
   \<and> environ (snd (ensure_curl_cffi_ca_bundle host_win world_fresh)) \<noteq> environ world_fresh
   \<and> (\<exists>data. fst (ensure_curl_cffi_ca_bundle host_win world_fresh)
                 = Inr (Some (path_str (dest_path (gettempdir host_win) data)))
          \<and> environ (snd (ensure_curl_cffi_ca_bundle host_win world_fresh)) CURL_CA_BUNDLE
                 = Some (path_str (dest_path (gettempdir host_win) data)))"
proof -
  have n: "fst (ensure_curl_cffi_ca_bundle host_ascii_src world_fresh) = Inr None"
    by (simp add: ensure_curl_cffi_ca_bundle_def world_fresh_def no_override_empty
        host_ascii_src_def host_win_def startswith_win32 is_ascii_iff str_of_def sep_def)
  have "environ (snd (ensure_curl_cffi_ca_bundle host_win world_fresh)) CURL_CA_BUNDLE
      = Some (path_str (dest_path tmp_win [0x41]))"
    by (simp add: ensure_host_win_fresh publish_def setdefault_as_update [OF env_names_differ]
        env_names_differ)
  moreover have "environ world_fresh CURL_CA_BUNDLE = None"
    by (simp add: world_fresh_def)
  ultimately have ch: "environ (snd (ensure_curl_cffi_ca_bundle host_win world_fresh)) \<noteq> environ world_fresh"
    by auto
  from n ch no_action_leaves_world [of host_ascii_src world_fresh]
    no_action_leaves_world [of host_win world_fresh]
  show ?thesis
    by blast
qed

theorem relocation_publishes_destination_witness:
  "environ_get_nonempty (environ world_fresh) CURL_CA_BUNDLE = None
   \<and> fst (ensure_curl_cffi_ca_bundle host_win world_fresh) = Inr (Some (path_str (dest_path tmp_win [0x41])))
   \<and> environ (snd (ensure_curl_cffi_ca_bundle host_win world_fresh)) CURL_CA_BUNDLE
        = Some (path_str (dest_path tmp_win [0x41]))
   \<and> environ (snd (ensure_curl_cffi_ca_bundle host_win world_fresh)) SSL_CERT_FILE
        = Some (path_str (dest_path tmp_win [0x41]))
   \<and> environ_get_nonempty (environ world_stale) CURL_CA_BUNDLE = None
   \<and> fst (ensure_curl_cffi_ca_bundle host_win world_stale) = Inr (Some (path_str (dest_path tmp_win [0x41])))
   \<and> environ (snd (ensure_curl_cffi_ca_bundle host_win world_stale)) CURL_CA_BUNDLE
        = Some (path_str (dest_path tmp_win [0x41]))
   \<and> environ (snd (ensure_curl_cffi_ca_bundle host_win world_stale)) SSL_CERT_FILE
        = Some (str_of ''D:/site.pem'')"
proof -
  have no1: "environ_get_nonempty (environ world_fresh) CURL_CA_BUNDLE = None"
    by (simp add: world_fresh_def no_override_empty)
  have no2: "environ_get_nonempty (environ world_stale) CURL_CA_BUNDLE = None"
    by (simp add: world_stale_def environ_get_nonempty_def env_names_differ)
  have r1: "ensure_curl_cffi_ca_bundle host_win world_fresh
      = (Inr (Some (path_str (dest_path tmp_win [0x41]))), snd (ensure_curl_cffi_ca_bundle host_win world_fresh))"
    by (simp add: ensure_host_win_fresh publish_def)
  have r2: "ensure_curl_cffi_ca_bundle host_win world_stale
      = (Inr (Some (path_str (dest_path tmp_win [0x41]))), snd (ensure_curl_cffi_ca_bundle host_win world_stale))"
    by (simp add: ensure_host_win_stale publish_def)
  have s1: "environ world_fresh SSL_CERT_FILE = None"
    by (simp add: world_fresh_def)
  have s2: "environ world_stale SSL_CERT_FILE = Some (str_of ''D:/site.pem'')"
    by (simp add: world_stale_def)
  have f1: "fst (ensure_curl_cffi_ca_bundle host_win world_fresh) = Inr (Some (path_str (dest_path tmp_win [0x41])))"
    by (simp add: ensure_host_win_fresh publish_def)
  have f2: "fst (ensure_curl_cffi_ca_bundle host_win world_stale) = Inr (Some (path_str (dest_path tmp_win [0x41])))"
    by (simp add: ensure_host_win_stale publish_def)
  note th1 = relocation_publishes_destination [OF no1 r1]
  note th2 = relocation_publishes_destination [OF no2 r2]
  from th1 have c1: "environ (snd (ensure_curl_cffi_ca_bundle host_win world_fresh)) CURL_CA_BUNDLE
      = Some (path_str (dest_path tmp_win [0x41]))"
    by (rule conjunct1)
  from th1 have "environ (snd (ensure_curl_cffi_ca_bundle host_win world_fresh)) SSL_CERT_FILE
      = Some (case environ world_fresh SSL_CERT_FILE of None \<Rightarrow> path_str (dest_path tmp_win [0x41]) | Some v \<Rightarrow> v)"
    by blast
  then have d1: "environ (snd (ensure_curl_cffi_ca_bundle host_win world_fresh)) SSL_CERT_FILE
      = Some (path_str (dest_path tmp_win [0x41]))"
    by (simp only: s1 option.case)
  from th2 have c2: "environ (snd (ensure_curl_cffi_ca_bundle host_win world_stale)) CURL_CA_BUNDLE
      = Some (path_str (dest_path tmp_win [0x41]))"
    by (rule conjunct1)
  from th2 have "environ (snd (ensure_curl_cffi_ca_bundle host_win world_stale)) SSL_CERT_FILE
      = Some (case environ world_stale SSL_CERT_FILE of None \<Rightarrow> path_str (dest_path tmp_win [0x41]) | Some v \<Rightarrow> v)"
    by blast
  then have d2: "environ (snd (ensure_curl_cffi_ca_bundle host_win world_stale)) SSL_CERT_FILE
      = Some (str_of ''D:/site.pem'')"
    by (simp only: s2 option.case)
  show ?thesis
    using no1 no2 f1 f2 c1 d1 c2 d2 by blast
qed

theorem existing_destination_not_verified_witness:
  "environ_get_nonempty (environ world_stale) CURL_CA_BUNDLE = None
   \<and> startswith (sys_platform host_win) (str_of ''win'')
   \<and> certifi_import host_win = Inr (Inr src_cjk)
   \<and> \<not> is_ascii src_cjk
   \<and> filesys world_stale src_cjk = Some (File [0x41])
   \<and> filesys world_stale (path_str (dest_dir (gettempdir host_win))) = Some Dir
   \<and> filesys world_stale (path_str (dest_path (gettempdir host_win) [0x41])) = Some (File [0x42])
   \<and> File [0x42] \<noteq> File [0x41]
   \<and> fst (ensure_curl_cffi_ca_bundle host_win world_stale)
        = Inr (Some (path_str (dest_path (gettempdir host_win) [0x41])))
   \<and> filesys (snd (ensure_curl_cffi_ca_bundle host_win world_stale)) = filesys world_stale
   \<and> filesys (snd (ensure_curl_cffi_ca_bundle host_win world_stale))
        (path_str (dest_path (gettempdir host_win) [0x41])) = Some (File [0x42])
   \<and> environ (snd (ensure_curl_cffi_ca_bundle host_win world_stale)) CURL_CA_BUNDLE
        = Some (path_str (dest_path (gettempdir host_win) [0x41]))"
proof -
  have no: "environ_get_nonempty (environ world_stale) CURL_CA_BUNDLE = None"
    by (simp add: world_stale_def environ_get_nonempty_def env_names_differ)
  have win: "startswith (sys_platform host_win) (str_of ''win'')"
    by (simp add: host_win_def startswith_win32)
  have cert: "certifi_import host_win = Inr (Inr src_cjk)"
    by (simp add: host_win_def)
  have tmp: "gettempdir host_win = tmp_win"
    by (simp add: host_win_def)
  have src: "filesys world_stale src_cjk = Some (File [0x41])"
    by (simp add: world_stale_def tmp_win_def path_str_def dest_path_def dest_dir_def joinpath_def
        src_cjk_def sep_def str_of_def)
  have dd: "filesys world_stale (path_str (dest_dir (gettempdir host_win))) = Some Dir"
    by (simp add: tmp world_stale_def dest_path_neq_dest_dir [symmetric])
  have ex: "filesys world_stale (path_str (dest_path (gettempdir host_win) [0x41])) = Some (File [0x42])"
    by (simp add: tmp world_stale_def)
  from existing_destination_not_verified [OF no win cert not_ascii_src_cjk src dd ex]
  show ?thesis
    using no win cert not_ascii_src_cjk src dd ex by simp
qed

theorem relocation_is_idempotent_witness:
  "environ_get_nonempty (environ world_fresh) CURL_CA_BUNDLE = None
   \<and> startswith (sys_platform host_win) (str_of ''win'')
   \<and> certifi_import host_win = Inr (Inr src_cjk)
   \<and> \<not> is_ascii src_cjk
   \<and> filesys world_fresh src_cjk = Some (File [0x41])
   \<and> environ_get_nonempty Map.empty CURL_CA_BUNDLE = None
   \<and> fst (ensure_curl_cffi_ca_bundle host_win world_fresh)
        = Inr (Some (path_str (dest_path (gettempdir host_win) [0x41])))
   \<and> fst (ensure_curl_cffi_ca_bundle host_win (snd (ensure_curl_cffi_ca_bundle host_win world_fresh)))
        = Inr (Some (path_str (dest_path (gettempdir host_win) [0x41])))
   \<and> fst (ensure_curl_cffi_ca_bundle host_win
             ((snd (ensure_curl_cffi_ca_bundle host_win world_fresh))\<lparr>environ := Map.empty\<rparr>))
        = Inr (Some (path_str (dest_path (gettempdir host_win) [0x41])))
   \<and> writes (io_trace (snd (ensure_curl_cffi_ca_bundle host_win
             ((snd (ensure_curl_cffi_ca_bundle host_win world_fresh))\<lparr>environ := Map.empty\<rparr>))))
        = [WriteBytes (path_str (dest_path tmp_win [0x41])) [0x41]]"
proof -
  have no: "environ_get_nonempty (environ world_fresh) CURL_CA_BUNDLE = None"
    by (simp add: world_fresh_def no_override_empty)
  have win: "startswith (sys_platform host_win) (str_of ''win'')"
    by (simp add: host_win_def startswith_win32)
  have cert: "certifi_import host_win = Inr (Inr src_cjk)"
    by (simp add: host_win_def)
  have src: "filesys world_fresh src_cjk = Some (File [0x41])"
    by (simp add: world_fresh_def)
  have fresh: "environ_get_nonempty Map.empty CURL_CA_BUNDLE = None"
    by (rule no_override_empty)
  have first: "ensure_curl_cffi_ca_bundle host_win world_fresh
      = (Inr (Some (path_str (dest_path tmp_win [0x41]))), snd (ensure_curl_cffi_ca_bundle host_win world_fresh))"
    by (simp add: ensure_host_win_fresh publish_def)
  have wr: "writes (io_trace (snd (ensure_curl_cffi_ca_bundle host_win world_fresh)))
      = [WriteBytes (path_str (dest_path tmp_win [0x41])) [0x41]]"
    by (simp add: ensure_host_win_fresh publish_def writes_def)
  have tmp: "gettempdir host_win = tmp_win"
    by (simp add: host_win_def)
  have f: "fst (ensure_curl_cffi_ca_bundle host_win world_fresh)
      = Inr (Some (path_str (dest_path tmp_win [0x41])))"
    by (simp add: ensure_host_win_fresh publish_def)
  note th = relocation_is_idempotent [OF no win cert not_ascii_src_cjk src first fresh]
  from th have same: "fst (ensure_curl_cffi_ca_bundle host_win (snd (ensure_curl_cffi_ca_bundle host_win world_fresh)))
        = Inr (Some (path_str (dest_path (gettempdir host_win) [0x41])))"
    by simp
  from th have again: "fst (ensure_curl_cffi_ca_bundle host_win
             ((snd (ensure_curl_cffi_ca_bundle host_win world_fresh))\<lparr>environ := Map.empty\<rparr>))
        = Inr (Some (path_str (dest_path (gettempdir host_win) [0x41])))"
    by blast
  from th wr have once: "writes (io_trace (snd (ensure_curl_cffi_ca_bundle host_win
             ((snd (ensure_curl_cffi_ca_bundle host_win world_fresh))\<lparr>environ := Map.empty\<rparr>))))
        = [WriteBytes (path_str (dest_path tmp_win [0x41])) [0x41]]"
    by simp
  show ?thesis
    using no win cert not_ascii_src_cjk src fresh f same again once by (simp add: tmp)
qed

text \<open>
  Claim C3. The destination path is ASCII-only exactly when the temp directory's path
  is; the routine never tests the temp directory, although the comment on line 55 and
  the module docstring call it ASCII-only. With the temp directory
  \<open>AppData/Local/Temp\<close> under the profile of a user on drive \<open>C:\<close> whose name is
  the two code points 29992 and 25143, the routine returns and publishes a path that
  is not ASCII-only.
\<close>

theorem nonascii_tempdir_nonascii_destination:
  "fst (ensure_curl_cffi_ca_bundle host_cjk_tmp world_cjk)
     = Inr (Some (path_str (dest_path tmp_cjk [0x41])))
   \<and> environ (snd (ensure_curl_cffi_ca_bundle host_cjk_tmp world_cjk)) CURL_CA_BUNDLE
     = Some (path_str (dest_path tmp_cjk [0x41]))
   \<and> path_str (dest_path tmp_cjk [0x41])
     = str_of ''C:'' @ sep @ str_of ''Users'' @ sep @ [29992, 25143] @ sep @ str_of ''AppData''
         @ sep @ str_of ''Local'' @ sep @ str_of ''Temp'' @ sep @ str_of ''sora2api''
         @ sep @ str_of ''certs'' @ sep @ str_of ''cacert-559aead08264.pem''
   \<and> \<not> is_ascii (path_str (dest_path tmp_cjk [0x41]))"
proof -
  have explicit: "path_str (dest_path tmp_cjk [0x41])
     = str_of ''C:'' @ sep @ str_of ''Users'' @ sep @ [29992, 25143] @ sep @ str_of ''AppData''
         @ sep @ str_of ''Local'' @ sep @ str_of ''Temp'' @ sep @ str_of ''sora2api''
         @ sep @ str_of ''certs'' @ sep @ str_of ''cacert-559aead08264.pem''"
    by (simp add: dest_path_def dest_dir_def joinpath_def path_str_def tmp_cjk_def sha256_A)
      (simp add: str_of_def sep_def)
  have no: "environ_get_nonempty (environ world_cjk) CURL_CA_BUNDLE = None"
    by (simp add: world_cjk_def world_fresh_def no_override_empty)
  have win: "startswith (sys_platform host_cjk_tmp) (str_of ''win'')"
    by (simp add: host_cjk_tmp_def host_win_def startswith_win32)
  have cert: "certifi_import host_cjk_tmp = Inr (Inr src_cjk)"
    by (simp add: host_cjk_tmp_def host_win_def)
  have tmp: "gettempdir host_cjk_tmp = tmp_cjk"
    by (simp add: host_cjk_tmp_def)
  have src: "filesys world_cjk src_cjk = Some (File [0x41])"
    by (simp add: world_cjk_def)
  have t: "filesys world_cjk (path_str (gettempdir host_cjk_tmp)) = Some Dir"
    by (simp add: tmp world_cjk_def tmp_cjk_def path_str_def src_cjk_def sep_def str_of_def)
  have a: "filesys world_cjk (path_str (joinpath (gettempdir host_cjk_tmp) (str_of ''sora2api''))) = None"
    by (simp add: tmp world_cjk_def tmp_cjk_def path_str_def joinpath_def src_cjk_def sep_def str_of_def)
  have b: "filesys world_cjk (path_str (dest_dir (gettempdir host_cjk_tmp))) = None"
    by (simp add: tmp world_cjk_def tmp_cjk_def path_str_def dest_dir_def joinpath_def src_cjk_def
        sep_def str_of_def)
  have c: "filesys world_cjk (path_str (dest_path (gettempdir host_cjk_tmp) [0x41])) = None"
    by (simp add: tmp world_cjk_def tmp_cjk_def path_str_def dest_path_def dest_dir_def joinpath_def
        src_cjk_def sep_def str_of_def)
  have "\<not> is_ascii (path_str tmp_cjk)"
    unfolding is_ascii_path_str by (simp add: tmp_cjk_def is_ascii_iff)
  then have bad: "\<not> is_ascii (path_str (dest_path tmp_cjk [0x41]))"
    by (simp add: is_ascii_dest_path)
  have "fst (ensure_curl_cffi_ca_bundle host_cjk_tmp world_cjk)
       = Inr (Some (path_str (dest_path tmp_cjk [0x41])))
     \<and> environ (snd (ensure_curl_cffi_ca_bundle host_cjk_tmp world_cjk)) CURL_CA_BUNDLE
       = Some (path_str (dest_path tmp_cjk [0x41]))"
    by (simp add: ensure_first_relocation [OF no win cert not_ascii_src_cjk src t a b c] tmp
        publish_def setdefault_as_update [OF env_names_differ] env_names_differ)
  with explicit bad show ?thesis
    by blast
qed

text \<open>
  A directory at the source path: line 52 lets it pass, line 57 makes the destination
  directory and line 59 raises.
\<close>

lemma relocate_directory_source:
  assumes src: "filesys w src = Some Dir"
    and mk: "path_mkdir True True (filesys w) (dest_dir (gettempdir h)) = (None, fsys2)"
  shows "relocate h src w =
     (Inl PermissionError,
      w\<lparr>io_trace := io_trace w @ [Exists src, Mkdir (path_str (dest_dir (gettempdir h))),
           ReadBytes src],
         filesys := fsys2\<rparr>)"
proof -
  have "fsys2 src = Some Dir"
    using path_mkdir_preserves [OF mk, of src] src by simp
  then show ?thesis
    using src mk
    by (simp add: relocate_def record_io_def path_exists_def read_bytes_def Let_def)
qed

text \<open>
  Claim C8, as stated, fails. The source path need only not be an existing file, and a
  directory is not one; but \<open>src.exists()\<close> on line 52 is true of a directory. With
  a directory at the source path the routine does not return \<open>None\<close>: it creates the
  destination directory, which was not there, and the read of the source raises.
\<close>

theorem directory_source_counterexample:
  "environ_get_nonempty (environ world_src_dir) CURL_CA_BUNDLE = None
   \<and> startswith (sys_platform host_win) (str_of ''win'')
   \<and> certifi_import host_win = Inr (Inr src_cjk)
   \<and> \<not> is_ascii src_cjk
   \<and> filesys world_src_dir src_cjk = Some Dir
   \<and> fst (ensure_curl_cffi_ca_bundle host_win world_src_dir) = Inl PermissionError
   \<and> fst (ensure_curl_cffi_ca_bundle host_win world_src_dir) \<noteq> Inr None
   \<and> filesys world_src_dir (path_str (dest_dir tmp_win)) = None
   \<and> filesys (snd (ensure_curl_cffi_ca_bundle host_win world_src_dir)) (path_str (dest_dir tmp_win))
        = Some Dir"
proof -
  have no: "environ_get_nonempty (environ world_src_dir) CURL_CA_BUNDLE = None"
    by (simp add: world_src_dir_def world_fresh_def no_override_empty)
  have win: "startswith (sys_platform host_win) (str_of ''win'')"
    by (simp add: host_win_def startswith_win32)
  have cert: "certifi_import host_win = Inr (Inr src_cjk)"
    by (simp add: host_win_def)
  have tmp: "gettempdir host_win = tmp_win"
    by (simp add: host_win_def)
  have src: "filesys world_src_dir src_cjk = Some Dir"
    by (simp add: world_src_dir_def)
  have t: "filesys world_src_dir (path_str tmp_win) = Some Dir"
    by (simp add: world_src_dir_def tmp_win_def path_str_def src_cjk_def sep_def str_of_def)
  have a: "filesys world_src_dir (path_str (joinpath tmp_win (str_of ''sora2api''))) = None"
    by (simp add: world_src_dir_def tmp_win_def path_str_def joinpath_def src_cjk_def sep_def str_of_def)
  have b: "filesys world_src_dir (path_str (dest_dir tmp_win)) = None"
    by (simp add: world_src_dir_def tmp_win_def path_str_def dest_dir_def joinpath_def src_cjk_def
        sep_def str_of_def)
  have run: "ensure_curl_cffi_ca_bundle host_win world_src_dir =
     (Inl PermissionError,
      world_src_dir\<lparr>io_trace := io_trace world_src_dir @ [Exists src_cjk,
           Mkdir (path_str (dest_dir tmp_win)), ReadBytes src_cjk],
         filesys := (filesys world_src_dir)(path_str (joinpath tmp_win (str_of ''sora2api'')) \<mapsto> Dir,
           path_str (dest_dir tmp_win) \<mapsto> Dir)\<rparr>)"
    unfolding ensure_relocate [OF no win cert not_ascii_src_cjk]
    using relocate_directory_source [of world_src_dir src_cjk host_win, unfolded tmp,
        OF src path_mkdir_under_tmp [OF t a b]] .
  have res: "fst (ensure_curl_cffi_ca_bundle host_win world_src_dir) = Inl PermissionError"
    by (simp add: run)
  have after: "filesys (snd (ensure_curl_cffi_ca_bundle host_win world_src_dir)) (path_str (dest_dir tmp_win))
        = Some Dir"
    by (simp add: run)
  show ?thesis
    using no win cert not_ascii_src_cjk src res b after by simp
qed

end
